theory Spec2Isabelle
  imports Complex_Main
begin

section \<open>The job application tracker: the record store and its reports\<close>

text \<open>
  The tracker keeps every application as one data row of \<^verbatim>\<open>applications.csv\<close> under a
  fixed header of eight columns. Each operation of \<^verbatim>\<open>job_tracker.py\<close> (terminal) and of
  \<^verbatim>\<open>job_tracker_app.py\<close> (web form) reads the whole file with \<^verbatim>\<open>pd.read_csv\<close>, works on
  the data frame and, when it changes something, writes the whole frame back with
  \<^verbatim>\<open>df.to_csv(FILE, index=False)\<close>.

  What the embedding fixes:
  \<^item> the file is the list of its data rows, each row the text of its eight cells; the
    header is constant and the quoting of commas and quotes inside a cell belongs to
    the CSV reader and writer, which are taken to agree on it;
  \<^item> a cell of a data frame is \<open>NaN\<close>, a Python string or a Python \<^verbatim>\<open>date\<close>; the
    frame is the one \<^verbatim>\<open>read_csv\<close> builds of columns that keep their strings, and a
    statement that depends on what a field is read as carries the condition
    \<open>kept_as_text\<close> on the columns it reads, which leaves out the columns that
    \<^verbatim>\<open>read_csv\<close> converts to numbers or booleans;
  \<^item> the parsers of the libraries (\<^verbatim>\<open>datetime.strptime(s, "%Y-%m-%d")\<close>, the routines
    of \<^verbatim>\<open>pd.to_datetime(..., errors='coerce')\<close>, \<^verbatim>\<open>int(s)\<close>) are arguments of the
    functions that call them, \<open>None\<close> standing for \<^verbatim>\<open>ValueError\<close> and for \<^verbatim>\<open>NaT\<close>;
    every theorem holds for all of them, and \<open>iso_date\<close>, \<open>two_formats\<close> and \<open>dec_int\<close>
    below are instances to run the examples with;
  \<^item> \<^verbatim>\<open>datetime.today().date()\<close> is the argument \<open>today\<close>; timestamps are compared at
    the precision of a day, the only precision the program writes;
  \<^item> what a function prints is the value it returns.
\<close>

subsection \<open>Dates\<close>

datatype date = YMD (year: nat) (month: nat) (day: nat)

definition date_le :: "date \<Rightarrow> date \<Rightarrow> bool" where
  "date_le a b \<longleftrightarrow>
     year a < year b \<or>
     (year a = year b \<and> (month a < month b \<or> (month a = month b \<and> day a \<le> day b)))"

definition digit_char :: "nat \<Rightarrow> char" where
  "digit_char n = ''0123456789'' ! (n mod 10)"

definition zfill2 :: "nat \<Rightarrow> string" where
  "zfill2 n = [digit_char (n div 10), digit_char n]"

definition zfill4 :: "nat \<Rightarrow> string" where
  "zfill4 n = [digit_char (n div 1000), digit_char (n div 100), digit_char (n div 10), digit_char n]"

text \<open>\<^verbatim>\<open>str(d)\<close> of a \<^verbatim>\<open>date\<close> (years 1 to 9999): \<^verbatim>\<open>YYYY-MM-DD\<close>, zero padded.\<close>

definition isoformat :: "date \<Rightarrow> string" where
  "isoformat d = zfill4 (year d) @ ''-'' @ zfill2 (month d) @ ''-'' @ zfill2 (day d)"

subsection \<open>Strings\<close>

text \<open>\<^verbatim>\<open>str.strip()\<close> and \<^verbatim>\<open>str.lower()\<close> on ASCII text.\<close>

definition py_isspace :: "char \<Rightarrow> bool" where
  "py_isspace c \<longleftrightarrow>
     c \<in> set [CHR 0x09, CHR 0x0A, CHR 0x0B, CHR 0x0C, CHR 0x0D,
               CHR 0x1C, CHR 0x1D, CHR 0x1E, CHR 0x1F, CHR 0x20]"

definition strip :: "string \<Rightarrow> string" where
  "strip s = rev (dropWhile py_isspace (rev (dropWhile py_isspace s)))"

definition lower_char :: "char \<Rightarrow> char" where
  "lower_char c =
     (let n = (of_char c :: nat) in if 65 \<le> n \<and> n \<le> 90 then char_of (n + 32) else c)"

definition lower :: "string \<Rightarrow> string" where
  "lower s = map lower_char s"

subsection \<open>Rows, data frames and the file\<close>

text \<open>\<^verbatim>\<open>COLUMNS\<close>: one cell per column, in the order of the header.\<close>

datatype 'a row =
  Row (Date: 'a) (Company: 'a) (Role: 'a) (Application_Method: 'a)
      (Contact: 'a) (Status: 'a) (Follow_up_Date: 'a) (Notes: 'a)

datatype cell = NaN | Str string | DateObj date

type_synonym csv_file = "string row list"
type_synonym dataframe = "cell row list"

text \<open>
  The strings \<^verbatim>\<open>read_csv\<close> reads as missing (its default \<^verbatim>\<open>na_values\<close>, with
  \<^verbatim>\<open>keep_default_na=True\<close>); the empty field is the first of them.
\<close>

definition na_values :: "string list" where
  "na_values =
     ['''', ''#N/A'', ''#N/A N/A'', ''#NA'', ''-1.#IND'', ''-1.#QNAN'', ''-NaN'', ''-nan'',
      ''1.#IND'', ''1.#QNAN'', ''<NA>'', ''N/A'', ''NA'', ''NULL'', ''NaN'', ''None'',
      ''n/a'', ''nan'', ''null'']"

definition read_cell :: "string \<Rightarrow> cell" where
  "read_cell s = (if s \<in> set na_values then NaN else Str s)"

text \<open>The frame of a file whose columns keep their strings (\<open>kept_as_text\<close> below): a
  field is missing or is its own text. A column that \<^verbatim>\<open>read_csv\<close> converts to numbers or
  booleans is not described by it, and the statements on what a field is read as leave
  such columns out by their conditions.\<close>

definition read_csv :: "csv_file \<Rightarrow> dataframe" where
  "read_csv f = map (map_row read_cell) f"

text \<open>\<^verbatim>\<open>to_csv\<close> writes a missing value as the empty field (\<^verbatim>\<open>na_rep=''\<close>), a string as
  it is and any other object by \<^verbatim>\<open>str\<close>.\<close>

fun write_cell :: "cell \<Rightarrow> string" where
  "write_cell NaN = ''''"
| "write_cell (Str s) = s"
| "write_cell (DateObj d) = isoformat d"

definition to_csv :: "dataframe \<Rightarrow> csv_file" where
  "to_csv df = map (map_row write_cell) df"

subsection \<open>Columns that keep their text\<close>

text \<open>
  \<^verbatim>\<open>read_csv\<close> converts a column to numbers when every field of it that is not missing
  is a number to its tokenizer (to \<^verbatim>\<open>int64\<close> when none is missing, to \<^verbatim>\<open>float64\<close>
  otherwise), and to booleans when every such field spells \<^verbatim>\<open>true\<close> or \<^verbatim>\<open>false\<close> in
  some case; any other column keeps the strings of its fields. \<open>read_csv\<close> above
  is the reader on the columns that keep their strings, and \<open>kept_as_text\<close> says of a
  column of the file that it is one of them: all of it is missing, or some field of it
  is neither missing, nor a number, nor a boolean. \<open>number_token\<close> is generous: it holds
  of every field the tokenizer reads as a number (blanks around it, a sign, digits with
  a decimal point, an exponent, the spellings of infinity), and of some more.
\<close>

definition unsigned :: "string \<Rightarrow> string" where
  "unsigned t = (if t \<noteq> [] \<and> (hd t = CHR ''+'' \<or> hd t = CHR ''-'') then tl t else t)"

definition number_token :: "string \<Rightarrow> bool" where
  "number_token s =
     (let u = lower (unsigned (strip s));
          mantissa = takeWhile (\<lambda>c. c \<noteq> CHR ''e'') u;
          exponent = dropWhile (\<lambda>c. c \<noteq> CHR ''e'') u
      in u \<in> set [''inf'', ''infinity'']
         \<or> (list_all (\<lambda>c. c \<in> set ''0123456789.'') mantissa
             \<and> (exponent = [] \<or> list_all (\<lambda>c. c \<in> set ''0123456789'') (unsigned (tl exponent)))))"

definition boolean_token :: "string \<Rightarrow> bool" where
  "boolean_token s \<longleftrightarrow> lower s \<in> set [''true'', ''false'']"

definition kept_as_text :: "string list \<Rightarrow> bool" where
  "kept_as_text col \<longleftrightarrow>
     list_all (\<lambda>s. s \<in> set na_values) col
     \<or> list_ex (\<lambda>s. s \<notin> set na_values \<and> \<not> number_token s \<and> \<not> boolean_token s) col"

definition columns :: "'a row list \<Rightarrow> 'a list list" where
  "columns t =
     [map Date t, map Company t, map Role t, map Application_Method t,
      map Contact t, map Status t, map Follow_up_Date t, map Notes t]"

subsection \<open>What the terminal prints\<close>

datatype message =
    NoApplicationsFound
  | NoFollowUpsPending
  | InvalidDateFormat
  | InvalidFollowUpDate
  | ApplicationAdded string string
  | InvalidNumber
  | InvalidInput
  | ApplicationDeleted
  | DeletionCancelled

subsection \<open>Listing\<close>

text \<open>\<^verbatim>\<open>df.empty\<close>: no data row (the frame always has its eight columns). A function that
  prints a table answers \<open>Inr\<close> of the frame it tabulates, \<open>Inl\<close> of the message
  otherwise.\<close>

definition view_applications :: "csv_file \<Rightarrow> message + dataframe" where
  "view_applications f =
     (let df = read_csv f in
      if df = [] then Inl NoApplicationsFound else Inr df)"

text \<open>The records a listing shows.\<close>

fun listed :: "message + dataframe \<Rightarrow> dataframe" where
  "listed (Inl m) = []"
| "listed (Inr df) = df"

subsection \<open>Adding\<close>

text \<open>
  The eight answers typed at the prompts come in the order of the columns, so they are
  a row of raw strings. \<open>strptime\<close> is \<^verbatim>\<open>datetime.strptime(s, "%Y-%m-%d").date()\<close>, with
  \<open>None\<close> for \<^verbatim>\<open>ValueError\<close>. The new row holds \<^verbatim>\<open>date\<close> objects and strings;
  \<^verbatim>\<open>pd.concat(..., ignore_index=True)\<close> puts it after the rows read from the file.
\<close>

definition add_application ::
  "(string \<Rightarrow> date option) \<Rightarrow> date \<Rightarrow> string row \<Rightarrow> csv_file \<Rightarrow> message list \<times> csv_file" where
  "add_application strptime today inp f =
     (let date_applied = strip (Date inp);
          (said1, date_applied) =
            (if date_applied = [] then ([], DateObj today)
             else case strptime date_applied of
                    Some d \<Rightarrow> ([], DateObj d)
                  | None \<Rightarrow> ([InvalidDateFormat], DateObj today));
          company = strip (Company inp);
          role = strip (Role inp);
          method = strip (Application_Method inp);
          contact = strip (Contact inp);
          status = strip (Status inp);
          follow_up = strip (Follow_up_Date inp);
          (said2, follow_up) =
            (if follow_up \<noteq> [] then
               case strptime follow_up of
                 Some d \<Rightarrow> ([], DateObj d)
               | None \<Rightarrow> ([InvalidFollowUpDate], Str [])
             else ([], Str follow_up));
          notes = strip (Notes inp);
          df = read_csv f;
          new_row = Row date_applied (Str company) (Str role) (Str method)
                        (Str contact) (Str status) follow_up (Str notes);
          df = df @ [new_row]
      in (said1 @ said2 @ [ApplicationAdded company role], to_csv df))"

subsection \<open>Follow-ups\<close>

text \<open>
  \<^verbatim>\<open>pd.to_datetime(column, errors='coerce')\<close> works on the column as a whole. It looks
  for the first cell that is not missing; when that is a string it guesses a format
  from it (\<open>guess_datetime_format\<close>) and reads every string of the column with that one
  format (\<open>strptime_format\<close>), so a string in another format becomes \<^verbatim>\<open>NaT\<close>; when no
  format can be guessed it reads every string on its own (\<open>parse_single\<close>). The three
  routines are the library's and come as one argument; \<open>None\<close> is \<^verbatim>\<open>NaT\<close>. A library
  that reads every cell on its own (pandas before 2.0) is the instance that never
  guesses a format.
\<close>

datatype 'fmt datetime_lib =
  DatetimeLib (guess_datetime_format: "string \<Rightarrow> 'fmt option")
              (strptime_format: "'fmt \<Rightarrow> string \<Rightarrow> date option")
              (parse_single: "string \<Rightarrow> date option")

fun first_non_null :: "cell list \<Rightarrow> cell option" where
  "first_non_null [] = None"
| "first_non_null (NaN # col) = first_non_null col"
| "first_non_null (c # col) = Some c"

text \<open>The parser that the column fixes for each of its strings.\<close>

definition column_parser :: "'fmt datetime_lib \<Rightarrow> cell list \<Rightarrow> string \<Rightarrow> date option" where
  "column_parser lib col =
     (case first_non_null col of
        Some (Str s) \<Rightarrow>
          (case guess_datetime_format lib s of
             Some fmt \<Rightarrow> strptime_format lib fmt
           | None \<Rightarrow> parse_single lib)
      | _ \<Rightarrow> parse_single lib)"

fun coerce :: "(string \<Rightarrow> date option) \<Rightarrow> cell \<Rightarrow> date option" where
  "coerce p NaN = None"
| "coerce p (Str s) = p s"
| "coerce p (DateObj d) = Some d"

definition to_datetime :: "'fmt datetime_lib \<Rightarrow> cell list \<Rightarrow> date option list" where
  "to_datetime lib col = map (coerce (column_parser lib col)) col"

text \<open>\<^verbatim>\<open>column <= today\<close>, cell by cell: a comparison with \<^verbatim>\<open>NaT\<close> is false.\<close>

definition le_today :: "date \<Rightarrow> date option \<Rightarrow> bool" where
  "le_today today t = (case t of None \<Rightarrow> False | Some d \<Rightarrow> date_le d today)"

text \<open>\<^verbatim>\<open>df[mask]\<close>: the rows at which the boolean column is true, in their order.\<close>

definition boolean_index :: "'a list \<Rightarrow> bool list \<Rightarrow> 'a list" where
  "boolean_index df keep = map fst (filter snd (zip df keep))"



subsection \<open>Deleting\<close>

text \<open>\<^verbatim>\<open>df.drop(idx).reset_index(drop=True)\<close> on the range index that \<^verbatim>\<open>read_csv\<close> gives:
  the row at position \<open>idx\<close> goes, the others close up.\<close>

definition drop_row :: "nat \<Rightarrow> 'a list \<Rightarrow> 'a list" where
  "drop_row idx df = take idx df @ drop (Suc idx) df"

text \<open>
  \<open>py_int\<close> is \<^verbatim>\<open>int(s)\<close>, with \<open>None\<close> for \<^verbatim>\<open>ValueError\<close>; \<open>number\<close> and \<open>confirm\<close> are
  the two lines typed. The second is asked for only once the number is in range.
\<close>

definition delete_application ::
  "(string \<Rightarrow> int option) \<Rightarrow> string \<Rightarrow> string \<Rightarrow> csv_file \<Rightarrow> message \<times> csv_file" where
  "delete_application py_int number confirm f =
     (let df = read_csv f in
      if df = [] then (NoApplicationsFound, f)
      else
        case py_int (strip number) of
          None \<Rightarrow> (InvalidInput, f)
        | Some n \<Rightarrow>
            let idx = n - 1 in
            if idx < 0 \<or> idx \<ge> int (length df) then (InvalidNumber, f)
            else
              let confirm = lower (strip confirm) in
              if confirm = ''y'' then (ApplicationDeleted, to_csv (drop_row (nat idx) df))
              else (DeletionCancelled, f))"

subsection \<open>Statistics\<close>

text \<open>
  \<^verbatim>\<open>Series.value_counts()\<close>: missing values are left out (\<^verbatim>\<open>dropna=True\<close>), every other
  distinct value is paired with the number of its occurrences, and the pairs are
  sorted by falling count. The values enter the sort in the order of their first
  appearance; the order in which the library's sort leaves equal counts is not fixed
  by the program, and the sort here keeps them as they enter.
\<close>

fun uniq :: "'a list \<Rightarrow> 'a list" where
  "uniq [] = []"
| "uniq (x # xs) = x # uniq (removeAll x xs)"

definition value_counts :: "cell list \<Rightarrow> (cell \<times> nat) list" where
  "value_counts col =
     (let vals = filter (\<lambda>c. c \<noteq> NaN) col in
      sort_key (\<lambda>(v, n). - int n) (map (\<lambda>v. (v, count_list vals v)) (uniq vals)))"

text \<open>The place at which a value is first met in a column (the length of the column when
  it is not in it).\<close>

definition first_index :: "'a list \<Rightarrow> 'a \<Rightarrow> nat" where
  "first_index col v = length (takeWhile (\<lambda>c. c \<noteq> v) col)"

text \<open>\<^verbatim>\<open>status_counts.get(key, 0)\<close>.\<close>

definition get_count :: "(cell \<times> nat) list \<Rightarrow> cell \<Rightarrow> nat \<Rightarrow> nat" where
  "get_count counts key dflt = (case map_of counts key of None \<Rightarrow> dflt | Some n \<Rightarrow> n)"

datatype py_error = ZeroDivisionError

text \<open>\<^verbatim>\<open>a / b\<close> on two counts: Python raises on a zero divisor. The quotient is the exact
  one; the program rounds it to one decimal only when it prints.\<close>

definition truediv :: "nat \<Rightarrow> nat \<Rightarrow> py_error + rat" where
  "truediv a b = (if b = 0 then Inl ZeroDivisionError else Inr (of_nat a / of_nat b))"

text \<open>The comprehension \<^verbatim>\<open>[[status, count, count / total * 100] for status, count in
  status_counts.items()]\<close>.\<close>

fun stats_table :: "nat \<Rightarrow> (cell \<times> nat) list \<Rightarrow> py_error + (cell \<times> nat \<times> rat) list" where
  "stats_table ntotal [] = Inr []"
| "stats_table ntotal ((status, count) # rest) =
     (case truediv count ntotal of
        Inl e \<Rightarrow> Inl e
      | Inr q \<Rightarrow>
          (case stats_table ntotal rest of
             Inl e \<Rightarrow> Inl e
           | Inr table \<Rightarrow> Inr ((status, count, q * 100) # table)))"

record stats_report =
  status_rows :: "(cell \<times> nat \<times> rat) list"
  apps_to_interview :: rat
  apps_to_offer :: rat
  follow_ups_due :: nat
  total_applications :: nat

datatype 'a result = Message message | Raise py_error | Return 'a

definition application_stats ::
  "'fmt datetime_lib \<Rightarrow> date \<Rightarrow> csv_file \<Rightarrow> stats_report result" where
  "application_stats lib today f =
     (let df = read_csv f in
      if df = [] then Message NoApplicationsFound
      else
        let status_counts = value_counts (map Status df);
            ntotal = length df
        in
        case stats_table ntotal status_counts of
          Inl e \<Rightarrow> Raise e
        | Inr table \<Rightarrow>
            (case truediv (get_count status_counts (Str ''Interview'') 0) ntotal of
               Inl e \<Rightarrow> Raise e
             | Inr qi \<Rightarrow>
                 (case truediv (get_count status_counts (Str ''Offer'') 0) ntotal of
                    Inl e \<Rightarrow> Raise e
                  | Inr qo \<Rightarrow>
                      Return \<lparr> status_rows = table,
                               apps_to_interview = qi * 100,
                               apps_to_offer = qo * 100,
                               follow_ups_due =
                                 length (boolean_index df
                                   (map (le_today today)
                                        (to_datetime lib (map Follow_up_Date df)))),
                               total_applications = ntotal \<rparr>)))"

text \<open>The web page (\<^verbatim>\<open>job_tracker_app.py\<close>) writes one line per status and the total.\<close>

definition application_stats_app ::
  "csv_file \<Rightarrow> ((cell \<times> nat \<times> rat) list \<times> nat) result" where
  "application_stats_app f =
     (let df = read_csv f in
      if df = [] then Message NoApplicationsFound
      else
        let status_counts = value_counts (map Status df);
            ntotal = length df
        in
        case stats_table ntotal status_counts of
          Inl e \<Rightarrow> Raise e
        | Inr lines \<Rightarrow> Return (lines, ntotal))"

text \<open>The value a call returns, if it returns one.\<close>

fun returned :: "'a result \<Rightarrow> 'a option" where
  "returned (Return x) = Some x"
| "returned (Message m) = None"
| "returned (Raise e) = None"

subsection \<open>Parsers to run the examples with\<close>

text \<open>
  Decimal digits, a signed decimal number, and the ten characters \<^verbatim>\<open>YYYY-MM-DD\<close> of a
  calendar date: the texts that \<open>isoformat\<close> writes. The libraries' parsers read these
  texts in this way (and read further spellings, which no example uses).
\<close>

definition is_digit :: "char \<Rightarrow> bool" where
  "is_digit c \<longleftrightarrow> 48 \<le> (of_char c :: nat) \<and> (of_char c :: nat) \<le> 57"

definition dec_nat :: "string \<Rightarrow> nat option" where
  "dec_nat s =
     (if s \<noteq> [] \<and> list_all is_digit s
      then Some (foldl (\<lambda>a c. 10 * a + (of_char c - 48)) 0 s)
      else None)"

definition dec_int :: "string \<Rightarrow> int option" where
  "dec_int s =
     (if s \<noteq> [] \<and> hd s = CHR ''-'' then map_option (\<lambda>n. - int n) (dec_nat (tl s))
      else if s \<noteq> [] \<and> hd s = CHR ''+'' then map_option int (dec_nat (tl s))
      else map_option int (dec_nat s))"

definition leap_year :: "nat \<Rightarrow> bool" where
  "leap_year y \<longleftrightarrow> y mod 4 = 0 \<and> (y mod 100 \<noteq> 0 \<or> y mod 400 = 0)"

definition days_in_month :: "nat \<Rightarrow> nat \<Rightarrow> nat" where
  "days_in_month y m =
     (if m = 2 then (if leap_year y then 29 else 28)
      else if m \<in> {4, 6, 9, 11} then 30 else 31)"

definition iso_date :: "string \<Rightarrow> date option" where
  "iso_date s =
     (if length s = 10 \<and> s ! 4 = CHR ''-'' \<and> s ! 7 = CHR ''-'' then
        (case (dec_nat (take 4 s), dec_nat (take 2 (drop 5 s)), dec_nat (drop 8 s)) of
           (Some y, Some m, Some d) \<Rightarrow>
             if 1 \<le> y \<and> 1 \<le> m \<and> m \<le> 12 \<and> 1 \<le> d \<and> d \<le> days_in_month y m
             then Some (YMD y m d) else None
         | _ \<Rightarrow> None)
      else None)"

text \<open>
  A date library with two formats, \<^verbatim>\<open>%Y-%m-%d\<close> and \<^verbatim>\<open>%m/%d/%Y\<close>: it guesses the format
  of a string that is a date in one of them, reads a column with the format guessed,
  and reads a string on its own in whichever of the two fits.
\<close>

definition mdy_date :: "string \<Rightarrow> date option" where
  "mdy_date s =
     (if length s = 10 \<and> s ! 2 = CHR ''/'' \<and> s ! 5 = CHR ''/'' then
        (case (dec_nat (drop 6 s), dec_nat (take 2 s), dec_nat (take 2 (drop 3 s))) of
           (Some y, Some m, Some d) \<Rightarrow>
             if 1 \<le> y \<and> 1 \<le> m \<and> m \<le> 12 \<and> 1 \<le> d \<and> d \<le> days_in_month y m
             then Some (YMD y m d) else None
         | _ \<Rightarrow> None)
      else None)"

datatype date_format = Year_month_day | Month_day_year

definition two_formats :: "date_format datetime_lib" where
  "two_formats =
     DatetimeLib
       (\<lambda>s. if iso_date s \<noteq> None then Some Year_month_day
            else if mdy_date s \<noteq> None then Some Month_day_year
            else None)
       (\<lambda>fmt. case fmt of Year_month_day \<Rightarrow> iso_date | Month_day_year \<Rightarrow> mdy_date)
       (\<lambda>s. case iso_date s of Some d \<Rightarrow> Some d | None \<Rightarrow> mdy_date s)"

section \<open>Properties\<close>


subsection \<open>Reading and writing cells\<close>


lemma read_cell_Str: "read_cell s = Str s' \<longleftrightarrow> s = s' \<and> s \<notin> set na_values"
  by (auto simp: read_cell_def)

lemma read_cell_NaN: "read_cell s = NaN \<longleftrightarrow> s \<in> set na_values"
  by (simp add: read_cell_def)

lemma empty_is_na: "'''' \<in> set na_values"
  by (simp add: na_values_def)


subsection \<open>Follow-ups that are due\<close>












subsection \<open>Writing a loaded frame back\<close>

lemma read_write_read: "read_cell (write_cell (read_cell s)) = read_cell s"
  by (simp add: read_cell_def empty_is_na)

lemma read_csv_to_csv_read_csv: "read_csv (to_csv (read_csv f)) = read_csv f"
  by (simp add: read_csv_def to_csv_def row.map_comp comp_def read_write_read)

lemma length_read_csv: "length (read_csv f) = length f"
  by (simp add: read_csv_def)

lemma read_csv_Nil: "read_csv f = [] \<longleftrightarrow> f = []"
  by (simp add: read_csv_def)

lemma listed_view_applications: "listed (view_applications f) = read_csv f"
  by (simp add: view_applications_def Let_def)


subsection \<open>Deleting by display number\<close>



text \<open>
  Claim C2. For every store of \<open>N\<close> records, a display number \<open>i\<close> with \<open>i < 1\<close> or
  \<open>i > N\<close> deletes nothing: the terminal answers that the number is invalid (or, on an
  empty store, that there are no applications) and the file is the one it was; it is
  not written again, whatever would have been answered to the confirmation.
\<close>

theorem delete_out_of_range:
  assumes "py_int (strip number) = Some i" and "i < 1 \<or> i > int (length f)"
  shows "delete_application py_int number confirm f =
           (if f = [] then NoApplicationsFound else InvalidNumber, f)"
  using assms
  by (auto simp: delete_application_def Let_def length_read_csv read_csv_Nil)

theorem delete_out_of_range_witness:
  "dec_int (strip '' 3 '') = Some 3 \<and>
   (3::int) > int (length [Row ''2023-12-01'' ''Acme'' ''Dev'' ''email'' '''' ''Applied'' '''' '''',
                    Row ''2023-12-02'' ''Bolt'' ''Ops'' ''portal'' ''Kim'' ''Applied'' ''N/A'' ''''])
   \<and> delete_application dec_int '' 3 '' ''y''
       [Row ''2023-12-01'' ''Acme'' ''Dev'' ''email'' '''' ''Applied'' '''' '''',
        Row ''2023-12-02'' ''Bolt'' ''Ops'' ''portal'' ''Kim'' ''Applied'' ''N/A'' '''']
     = (InvalidNumber,
       [Row ''2023-12-01'' ''Acme'' ''Dev'' ''email'' '''' ''Applied'' '''' '''',
        Row ''2023-12-02'' ''Bolt'' ''Ops'' ''portal'' ''Kim'' ''Applied'' ''N/A'' ''''])"
proof -
  have n: "dec_int (strip '' 3 '') = Some 3" by code_simp
  have r: "(3::int) < 1 \<or> (3::int) > int (length [Row ''2023-12-01'' ''Acme'' ''Dev'' ''email'' '''' ''Applied'' '''' '''',
                    Row ''2023-12-02'' ''Bolt'' ''Ops'' ''portal'' ''Kim'' ''Applied'' ''N/A'' ''''])"
    by simp
  show ?thesis
    using delete_out_of_range [of dec_int "'' 3 ''" 3 _ "''y''", OF n r] n by simp
qed




subsection \<open>Counting values\<close>

lemma set_uniq: "set (uniq xs) = set xs"
  by (induction xs rule: uniq.induct) auto

lemma distinct_uniq: "distinct (uniq xs)"
  by (induction xs rule: uniq.induct) (auto simp: set_uniq)

lemma sum_list_insort_key:
  "sum_list (map g (insort_key k x xs)) = g x + sum_list (map g xs)"
  for g :: "'a \<Rightarrow> nat"
  by (induction xs) auto

lemma sum_list_sort_key:
  "sum_list (map g (sort_key k xs)) = sum_list (map g xs)"
  for g :: "'a \<Rightarrow> nat"
  by (induction xs) (auto simp: sum_list_insort_key)

lemma sum_count_uniq: "sum_list (map (count_list xs) (uniq xs)) = length xs"
proof -
  have "sum_list (map (count_list xs) (uniq xs)) = sum (count_list xs) (set (uniq xs))"
    by (rule sum_list_distinct_conv_sum_set) (rule distinct_uniq)
  also have "\<dots> = length xs"
    by (simp add: set_uniq sum_count_set)
  finally show ?thesis .
qed

lemma count_list_filter_other:
  "v \<noteq> w \<Longrightarrow> count_list (filter (\<lambda>c. c \<noteq> w) xs) v = count_list xs v"
  by (induction xs) auto


lemma set_value_counts:
  "set (value_counts col) =
     (\<lambda>v. (v, count_list col v)) ` (set col - {NaN})"
proof -
  have vals: "set (filter (\<lambda>c. c \<noteq> NaN) col) = set col - {NaN}"
    by auto
  have "set (value_counts col) =
      (\<lambda>v. (v, count_list (filter (\<lambda>c. c \<noteq> NaN) col) v)) ` (set col - {NaN})"
    by (simp only: value_counts_def Let_def set_sort set_map set_uniq vals)
  also have "\<dots> = (\<lambda>v. (v, count_list col v)) ` (set col - {NaN})"
    by (rule image_cong) (simp_all add: count_list_filter_other)
  finally show ?thesis .
qed

lemma keys_value_counts: "set (map fst (value_counts col)) = set col - {NaN}"
  by (simp add: set_value_counts image_image)

lemma distinct_value_counts: "distinct (map fst (value_counts col))"
proof -
  let ?pairs = "map (\<lambda>v. (v, count_list (filter (\<lambda>c. c \<noteq> NaN) col) v))
                    (uniq (filter (\<lambda>c. c \<noteq> NaN) col))"
  have d: "distinct (map fst ?pairs)"
    by (simp add: comp_def distinct_uniq)
  then have "inj_on fst (set ?pairs)" and "distinct ?pairs"
    by (simp_all only: distinct_map)
  then have "distinct (map fst (sort_key (\<lambda>(v, n). - int n) ?pairs))"
    by (simp only: distinct_map distinct_sort set_sort simp_thms)
  then show ?thesis
    by (simp only: value_counts_def Let_def)
qed


lemma sum_value_counts:
  "sum_list (map snd (value_counts col)) = length (filter (\<lambda>c. c \<noteq> NaN) col)"
proof -
  let ?vals = "filter (\<lambda>c. c \<noteq> NaN) col"
  have "sum_list (map snd (value_counts col)) =
      sum_list (map snd (map (\<lambda>v. (v, count_list ?vals v)) (uniq ?vals)))"
    by (simp only: value_counts_def Let_def sum_list_sort_key)
  also have "\<dots> = sum_list (map (count_list ?vals) (uniq ?vals))"
    by (simp add: comp_def)
  also have "\<dots> = length ?vals"
    by (rule sum_count_uniq)
  finally show ?thesis .
qed

lemma get_count_value_counts:
  assumes "v \<noteq> NaN"
  shows "get_count (value_counts col) v 0 = count_list col v"
proof (cases "v \<in> set col")
  case True
  with assms have "(v, count_list col v) \<in> set (value_counts col)"
    by (simp add: set_value_counts)
  then have "map_of (value_counts col) v = Some (count_list col v)"
    using distinct_value_counts [of col] by (simp only: map_of_eq_Some_iff)
  then show ?thesis
    by (simp add: get_count_def)
next
  case False
  then have "v \<notin> fst ` set (value_counts col)"
    using keys_value_counts [of col] by (simp only: set_map) simp
  then have "map_of (value_counts col) v = None"
    by (simp only: map_of_eq_None_iff simp_thms)
  moreover have "count_list col v = 0"
    using False by (simp only: count_list_0_iff simp_thms)
  ultimately show ?thesis
    by (simp add: get_count_def)
qed

lemma count_read_status:
  "s \<notin> set na_values \<Longrightarrow>
   count_list (map Status (read_csv f)) (Str s) = length (filter (\<lambda>t. Status t = s) f)"
  by (induction f) (simp_all add: read_csv_def row.map_sel read_cell_def)

lemma valued_read_status:
  "length (filter (\<lambda>c. c \<noteq> NaN) (map Status (read_csv f))) =
     length (filter (\<lambda>t. Status t \<notin> set na_values) f)"
  by (induction f) (simp_all add: read_csv_def row.map_sel read_cell_def)


subsection \<open>The report\<close>

lemma stats_table_pos:
  "0 < ntotal \<Longrightarrow>
   stats_table ntotal counts =
     Inr (map (\<lambda>(status, count). (status, count, of_nat count / of_nat ntotal * 100)) counts)"
  by (induction counts) (auto simp: truediv_def)

lemma application_stats_nonempty:
  assumes "f \<noteq> []"
  shows "application_stats parse today f =
     Return \<lparr> status_rows =
                map (\<lambda>(status, count). (status, count, of_nat count / of_nat (length f) * 100))
                    (value_counts (map Status (read_csv f))),
              apps_to_interview =
                of_nat (get_count (value_counts (map Status (read_csv f))) (Str ''Interview'') 0)
                  / of_nat (length f) * 100,
              apps_to_offer =
                of_nat (get_count (value_counts (map Status (read_csv f))) (Str ''Offer'') 0)
                  / of_nat (length f) * 100,
              follow_ups_due =
                length (boolean_index (read_csv f)
                  (map (le_today today)
                       (to_datetime parse (map Follow_up_Date (read_csv f))))),
              total_applications = length f \<rparr>"
proof -
  have ne: "read_csv f \<noteq> []" and pos: "0 < length f"
    using assms by (simp_all add: read_csv_Nil)
  have tbl: "stats_table (length (read_csv f)) (value_counts (map Status (read_csv f))) =
      Inr (map (\<lambda>(status, count). (status, count, of_nat count / of_nat (length f) * 100))
               (value_counts (map Status (read_csv f))))"
    using pos by (simp only: length_read_csv stats_table_pos)
  have dv: "\<And>a. truediv a (length (read_csv f)) = Inr (of_nat a / of_nat (length f))"
    using pos by (simp add: truediv_def length_read_csv)
  show ?thesis
    unfolding application_stats_def Let_def
    by (simp only: ne tbl dv if_False sum.case) (simp only: length_read_csv)
qed

lemma application_stats_app_nonempty:
  assumes "f \<noteq> []"
  shows "application_stats_app f =
     Return (map (\<lambda>(status, count). (status, count, of_nat count / of_nat (length f) * 100))
                 (value_counts (map Status (read_csv f))),
             length f)"
proof -
  have ne: "read_csv f \<noteq> []" and pos: "0 < length f"
    using assms by (simp_all add: read_csv_Nil)
  have tbl: "stats_table (length (read_csv f)) (value_counts (map Status (read_csv f))) =
      Inr (map (\<lambda>(status, count). (status, count, of_nat count / of_nat (length f) * 100))
               (value_counts (map Status (read_csv f))))"
    using pos by (simp only: length_read_csv stats_table_pos)
  show ?thesis
    unfolding application_stats_app_def Let_def
    by (simp only: ne tbl if_False sum.case) (simp only: length_read_csv)
qed

text \<open>
  Claim C4. On a store without records the statistics of both front ends stop at the
  notice that no applications were found and build no report; and on no store at all
  does either of them raise \<^verbatim>\<open>ZeroDivisionError\<close>: every division by the number of
  records happens after the frame was found not to be empty.
\<close>

theorem stats_empty_store:
  "application_stats parse today [] = Message NoApplicationsFound
   \<and> application_stats_app [] = Message NoApplicationsFound
   \<and> application_stats parse today f \<noteq> Raise ZeroDivisionError
   \<and> application_stats_app f \<noteq> Raise ZeroDivisionError"
proof -
  have e1: "application_stats parse today [] = Message NoApplicationsFound"
    by (simp add: application_stats_def read_csv_def)
  have e2: "application_stats_app [] = Message NoApplicationsFound"
    by (simp add: application_stats_app_def read_csv_def)
  have n1: "application_stats parse today f \<noteq> Raise ZeroDivisionError"
  proof (cases "f = []")
    case True
    then show ?thesis by (simp add: e1)
  next
    case False
    then show ?thesis by (simp add: application_stats_nonempty)
  qed
  have n2: "application_stats_app f \<noteq> Raise ZeroDivisionError"
  proof (cases "f = []")
    case True
    then show ?thesis by (simp add: e2)
  next
    case False
    then show ?thesis by (simp add: application_stats_app_nonempty)
  qed
  from e1 e2 n1 n2 show ?thesis by blast
qed

theorem stats_empty_store_witness:
  "application_stats two_formats (YMD 2024 1 1) [] = Message NoApplicationsFound
   \<and> application_stats two_formats (YMD 2024 1 1)
        [Row ''2023-12-01'' ''Acme'' ''Dev'' ''email'' '''' '''' '''' ''''] \<noteq> Raise ZeroDivisionError"
  using stats_empty_store [of two_formats "YMD 2024 1 1"
        "[Row ''2023-12-01'' ''Acme'' ''Dev'' ''email'' '''' '''' '''' '''']"]
  by blast


subsection \<open>Conversion rates\<close>

lemma interview_is_text: "''Interview'' \<notin> set na_values"
  by (simp add: na_values_def)

lemma offer_is_text: "''Offer'' \<notin> set na_values"
  by (simp add: na_values_def)

lemma applied_is_text: "''Applied'' \<notin> set na_values"
  by (simp add: na_values_def)

lemma statuses_of_read_csv: "map Status (read_csv f) = map read_cell (map Status f)"
  by (simp add: read_csv_def row.map_sel comp_def)

text \<open>
  Claim C7. For every store with at least one record the two conversion rates of the
  report are the number of records whose Status is \<^verbatim>\<open>Interview\<close> (respectively
  \<^verbatim>\<open>Offer\<close>) divided by the number of records, times 100. For every store whose
  statuses are Applied, Applied, Interview, Offer the report has a total of 4, the
  counts Applied 2, Interview 1, Offer 1, and both rates are 25.
\<close>

theorem conversion_rate:
  "(f \<noteq> [] \<longrightarrow>
      (\<exists>rep. application_stats parse today f = Return rep
         \<and> total_applications rep = length f
         \<and> apps_to_interview rep =
             of_nat (length (filter (\<lambda>t. Status t = ''Interview'') f)) / of_nat (length f) * 100
         \<and> apps_to_offer rep =
             of_nat (length (filter (\<lambda>t. Status t = ''Offer'') f)) / of_nat (length f) * 100))
   \<and> (map Status f = [''Applied'', ''Applied'', ''Interview'', ''Offer''] \<longrightarrow>
      (\<exists>rep. application_stats parse today f = Return rep
         \<and> total_applications rep = 4
         \<and> set (map (\<lambda>(status, count, percent). (status, count)) (status_rows rep)) =
             {(Str ''Applied'', 2), (Str ''Interview'', 1), (Str ''Offer'', 1)}
         \<and> apps_to_interview rep = 25
         \<and> apps_to_offer rep = 25))"
proof (intro conjI impI)
  assume ne: "f \<noteq> []"
  have i: "get_count (value_counts (map Status (read_csv f))) (Str ''Interview'') 0 =
      length (filter (\<lambda>t. Status t = ''Interview'') f)"
    by (simp add: get_count_value_counts count_read_status interview_is_text)
  have o: "get_count (value_counts (map Status (read_csv f))) (Str ''Offer'') 0 =
      length (filter (\<lambda>t. Status t = ''Offer'') f)"
    by (simp add: get_count_value_counts count_read_status offer_is_text)
  show "\<exists>rep. application_stats parse today f = Return rep
         \<and> total_applications rep = length f
         \<and> apps_to_interview rep =
             of_nat (length (filter (\<lambda>t. Status t = ''Interview'') f)) / of_nat (length f) * 100
         \<and> apps_to_offer rep =
             of_nat (length (filter (\<lambda>t. Status t = ''Offer'') f)) / of_nat (length f) * 100"
    by (simp add: application_stats_nonempty [OF ne] i o)
next
  assume st: "map Status f = [''Applied'', ''Applied'', ''Interview'', ''Offer'']"
  then have "length (map Status f) = 4"
    by simp
  then have len: "length f = 4"
    by simp
  then have ne: "f \<noteq> []" by auto
  have col: "map Status (read_csv f) =
      [Str ''Applied'', Str ''Applied'', Str ''Interview'', Str ''Offer'']"
    by (simp add: statuses_of_read_csv st read_cell_def interview_is_text offer_is_text
                  applied_is_text)
  have vals: "set [Str ''Applied'', Str ''Applied'', Str ''Interview'', Str ''Offer''] - {NaN} =
      {Str ''Applied'', Str ''Interview'', Str ''Offer''}"
    by simp
  have ca: "count_list [Str ''Applied'', Str ''Applied'', Str ''Interview'', Str ''Offer'']
              (Str ''Applied'') = 2"
    and ci: "count_list [Str ''Applied'', Str ''Applied'', Str ''Interview'', Str ''Offer'']
              (Str ''Interview'') = 1"
    and co: "count_list [Str ''Applied'', Str ''Applied'', Str ''Interview'', Str ''Offer'']
              (Str ''Offer'') = 1"
    by simp_all
  have keys: "set (value_counts (map Status (read_csv f))) =
      {(Str ''Applied'', 2), (Str ''Interview'', 1), (Str ''Offer'', 1)}"
    by (simp only: col set_value_counts vals image_insert image_empty ca ci co)
  have i: "get_count (value_counts (map Status (read_csv f))) (Str ''Interview'') 0 = 1"
    by (simp add: get_count_value_counts col ci del: count_list.simps)
  have o: "get_count (value_counts (map Status (read_csv f))) (Str ''Offer'') 0 = 1"
    by (simp add: get_count_value_counts col co del: count_list.simps)
  have pairs: "map (\<lambda>(status, count, percent). (status, count))
        (map (\<lambda>(status, count). (status, count, of_nat count / of_nat (length f) * (100::rat)))
             (value_counts (map Status (read_csv f)))) =
      value_counts (map Status (read_csv f))"
    by (simp add: comp_def case_prod_unfold)
  show "\<exists>rep. application_stats parse today f = Return rep
         \<and> total_applications rep = 4
         \<and> set (map (\<lambda>(status, count, percent). (status, count)) (status_rows rep)) =
             {(Str ''Applied'', 2), (Str ''Interview'', 1), (Str ''Offer'', 1)}
         \<and> apps_to_interview rep = 25
         \<and> apps_to_offer rep = 25"
    by (simp add: application_stats_nonempty [OF ne] pairs keys i o len)
qed

theorem conversion_rate_witness:
  "[Row ''2023-12-01'' ''Acme'' ''Dev'' ''email'' '''' ''Applied'' '''' '''',
    Row ''2023-12-02'' ''Bolt'' ''Ops'' ''portal'' ''Kim'' ''Applied'' '''' '''',
    Row ''2023-12-03'' ''Crux'' ''QA'' ''email'' '''' ''Interview'' ''2024-01-01'' ''call'',
    Row ''2023-12-04'' ''Dune'' ''Dev'' ''email'' '''' ''Offer'' '''' ''''] \<noteq> []
   \<and> map Status
       [Row ''2023-12-01'' ''Acme'' ''Dev'' ''email'' '''' ''Applied'' '''' '''',
        Row ''2023-12-02'' ''Bolt'' ''Ops'' ''portal'' ''Kim'' ''Applied'' '''' '''',
        Row ''2023-12-03'' ''Crux'' ''QA'' ''email'' '''' ''Interview'' ''2024-01-01'' ''call'',
        Row ''2023-12-04'' ''Dune'' ''Dev'' ''email'' '''' ''Offer'' '''' '''']
       = [''Applied'', ''Applied'', ''Interview'', ''Offer'']
   \<and> (\<exists>rep. application_stats two_formats (YMD 2024 1 1)
         [Row ''2023-12-01'' ''Acme'' ''Dev'' ''email'' '''' ''Applied'' '''' '''',
          Row ''2023-12-02'' ''Bolt'' ''Ops'' ''portal'' ''Kim'' ''Applied'' '''' '''',
          Row ''2023-12-03'' ''Crux'' ''QA'' ''email'' '''' ''Interview'' ''2024-01-01'' ''call'',
          Row ''2023-12-04'' ''Dune'' ''Dev'' ''email'' '''' ''Offer'' '''' ''''] = Return rep
         \<and> total_applications rep = 4
         \<and> apps_to_interview rep = 25
         \<and> apps_to_offer rep = 25)"
proof -
  let ?f = "[Row ''2023-12-01'' ''Acme'' ''Dev'' ''email'' '''' ''Applied'' '''' '''',
    Row ''2023-12-02'' ''Bolt'' ''Ops'' ''portal'' ''Kim'' ''Applied'' '''' '''',
    Row ''2023-12-03'' ''Crux'' ''QA'' ''email'' '''' ''Interview'' ''2024-01-01'' ''call'',
    Row ''2023-12-04'' ''Dune'' ''Dev'' ''email'' '''' ''Offer'' '''' '''']"
  have ne: "?f \<noteq> []"
    by simp
  have st: "map Status ?f = [''Applied'', ''Applied'', ''Interview'', ''Offer'']"
    by simp
  have "\<exists>rep. application_stats two_formats (YMD 2024 1 1) ?f = Return rep
         \<and> total_applications rep = 4
         \<and> apps_to_interview rep = 25
         \<and> apps_to_offer rep = 25"
    using conversion_rate [of ?f two_formats "YMD 2024 1 1"] st by blast
  with ne st show ?thesis
    by (intro conjI)
qed


subsection \<open>Equal counts\<close>




lemma first_index_filter:
  assumes "P a" and "P b"
  shows "first_index (filter P xs) a < first_index (filter P xs) b \<longleftrightarrow>
         first_index xs a < first_index xs b"
  using assms by (induction xs) (auto simp: first_index_def)





subsection \<open>The status table\<close>

lemma status_rows_nonempty:
  assumes "f \<noteq> []"
  shows "\<exists>rep. application_stats parse today f = Return rep
     \<and> status_rows rep =
         map (\<lambda>(status, count). (status, count, of_nat count / of_nat (length f) * 100))
             (value_counts (map Status (read_csv f)))
     \<and> total_applications rep = length f"
  by (simp add: application_stats_nonempty [OF assms])








subsection \<open>Counts and total\<close>

lemma table_counts_comp:
  "map (fst \<circ> snd) (map (\<lambda>(status, count). (status, count, g count)) counts) = map snd counts"
  by (simp add: comp_def case_prod_unfold)

lemma table_percents:
  "sum_list (map (snd \<circ> snd)
       (map (\<lambda>(status, count). (status, count, of_nat count / of_nat n * (100::rat))) counts)) =
     of_nat (sum_list (map snd counts)) / of_nat n * 100"
  by (induction counts) (auto simp: add_divide_distrib distrib_right)

text \<open>
  Claim C10, for the statuses that are read as values. For every store with at least
  one record, the counts of the status table (the same in both front ends) add up to
  the number of records whose Status is not read as missing; this is at most the
  total, and the percentages add up to that sum over the total, times 100. When no
  record has a blank or missing-value Status the counts add up to the total and the
  percentages to 100, before they are rounded for printing.
\<close>

theorem status_counts_sum:
  assumes "f \<noteq> []"
  shows "\<exists>rep. application_stats parse today f = Return rep
     \<and> application_stats_app f = Return (status_rows rep, total_applications rep)
     \<and> total_applications rep = length f
     \<and> sum_list (map (fst \<circ> snd) (status_rows rep)) =
         length (filter (\<lambda>t. Status t \<notin> set na_values) f)
     \<and> sum_list (map (fst \<circ> snd) (status_rows rep)) \<le> total_applications rep
     \<and> sum_list (map (snd \<circ> snd) (status_rows rep)) =
         of_nat (sum_list (map (fst \<circ> snd) (status_rows rep)))
           / of_nat (total_applications rep) * 100
     \<and> ((\<forall>t \<in> set f. Status t \<notin> set na_values) \<longrightarrow>
           sum_list (map (fst \<circ> snd) (status_rows rep)) = total_applications rep
           \<and> sum_list (map (snd \<circ> snd) (status_rows rep)) = 100)"
proof -
  let ?counts = "value_counts (map Status (read_csv f))"
  obtain rep where rep: "application_stats parse today f = Return rep"
    and rows: "status_rows rep =
        map (\<lambda>(status, count). (status, count, of_nat count / of_nat (length f) * 100)) ?counts"
    and tot: "total_applications rep = length f"
    using status_rows_nonempty [OF assms] by blast
  have app: "application_stats_app f = Return (status_rows rep, total_applications rep)"
    by (simp only: application_stats_app_nonempty [OF assms] rows tot)
  have sum: "sum_list (map (fst \<circ> snd) (status_rows rep)) =
      length (filter (\<lambda>t. Status t \<notin> set na_values) f)"
    by (simp only: rows table_counts_comp sum_value_counts valued_read_status)
  have le: "sum_list (map (fst \<circ> snd) (status_rows rep)) \<le> total_applications rep"
    by (simp only: sum tot length_filter_le)
  have pct: "sum_list (map (snd \<circ> snd) (status_rows rep)) =
      of_nat (sum_list (map (fst \<circ> snd) (status_rows rep)))
        / of_nat (total_applications rep) * 100"
    by (simp only: rows table_percents table_counts_comp tot)
  have all: "(\<forall>t \<in> set f. Status t \<notin> set na_values) \<longrightarrow>
           sum_list (map (fst \<circ> snd) (status_rows rep)) = total_applications rep
           \<and> sum_list (map (snd \<circ> snd) (status_rows rep)) = 100"
  proof
    assume v: "\<forall>t \<in> set f. Status t \<notin> set na_values"
    then have "filter (\<lambda>t. Status t \<notin> set na_values) f = f"
      by (simp only: filter_id_conv)
    then have eq: "sum_list (map (fst \<circ> snd) (status_rows rep)) = total_applications rep"
      by (simp only: sum tot)
    have "0 < length f"
      using assms by simp
    then have "sum_list (map (snd \<circ> snd) (status_rows rep)) = 100"
      by (simp add: pct eq tot)
    with eq show "sum_list (map (fst \<circ> snd) (status_rows rep)) = total_applications rep
           \<and> sum_list (map (snd \<circ> snd) (status_rows rep)) = 100"
      by simp
  qed
  from rep app tot sum le pct all show ?thesis
    by blast
qed

theorem status_counts_sum_witness:
  "[Row ''2023-12-01'' ''Acme'' ''Dev'' ''email'' '''' ''Applied'' '''' '''',
    Row ''2023-12-02'' ''Bolt'' ''Ops'' ''portal'' ''Kim'' ''Rejected'' '''' '''',
    Row ''2023-12-03'' ''Crux'' ''QA'' ''email'' '''' ''Applied'' '''' ''''] \<noteq> []
   \<and> set (map Status
          [Row ''2023-12-01'' ''Acme'' ''Dev'' ''email'' '''' ''Applied'' '''' '''',
           Row ''2023-12-02'' ''Bolt'' ''Ops'' ''portal'' ''Kim'' ''Rejected'' '''' '''',
           Row ''2023-12-03'' ''Crux'' ''QA'' ''email'' '''' ''Applied'' '''' ''''])
        \<inter> set na_values = {}
   \<and> (\<exists>rep. application_stats two_formats (YMD 2024 1 1)
         [Row ''2023-12-01'' ''Acme'' ''Dev'' ''email'' '''' ''Applied'' '''' '''',
          Row ''2023-12-02'' ''Bolt'' ''Ops'' ''portal'' ''Kim'' ''Rejected'' '''' '''',
          Row ''2023-12-03'' ''Crux'' ''QA'' ''email'' '''' ''Applied'' '''' ''''] = Return rep
        \<and> sum_list (map (fst \<circ> snd) (status_rows rep)) = 3
        \<and> total_applications rep = 3
        \<and> sum_list (map (snd \<circ> snd) (status_rows rep)) = 100)"
proof -
  let ?f = "[Row ''2023-12-01'' ''Acme'' ''Dev'' ''email'' '''' ''Applied'' '''' '''',
    Row ''2023-12-02'' ''Bolt'' ''Ops'' ''portal'' ''Kim'' ''Rejected'' '''' '''',
    Row ''2023-12-03'' ''Crux'' ''QA'' ''email'' '''' ''Applied'' '''' '''']"
  have ne: "?f \<noteq> []"
    by simp
  have v: "\<forall>t \<in> set ?f. Status t \<notin> set na_values"
    by (simp add: na_values_def)
  have len: "length ?f = 3"
    by simp
  obtain rep where "application_stats two_formats (YMD 2024 1 1) ?f = Return rep"
    and "total_applications rep = length ?f"
    and "sum_list (map (fst \<circ> snd) (status_rows rep)) = total_applications rep"
    and "sum_list (map (snd \<circ> snd) (status_rows rep)) = 100"
    using status_counts_sum [OF ne, of two_formats "YMD 2024 1 1"] v by blast
  moreover have "set (map Status ?f) \<inter> set na_values = {}"
    by (simp add: na_values_def)
  ultimately show ?thesis
    using ne len by (intro conjI exI [of _ rep]) simp_all
qed

text \<open>
  The claim as first put (the counts always add up to the total) fails on a store whose
  only record was entered with an empty Status: the total is 1, the table is empty and
  its counts add up to 0, in both front ends.
\<close>

theorem status_counts_sum_counterexample:
  "map_option (sum_list \<circ> map (fst \<circ> snd) \<circ> status_rows)
       (returned (application_stats two_formats (YMD 2024 1 1)
          [Row ''2023-12-01'' ''Acme'' ''Dev'' ''email'' '''' '''' '''' '''']))
     = Some 0
   \<and> map_option total_applications
       (returned (application_stats two_formats (YMD 2024 1 1)
          [Row ''2023-12-01'' ''Acme'' ''Dev'' ''email'' '''' '''' '''' '''']))
     = Some 1
   \<and> returned (application_stats_app
          [Row ''2023-12-01'' ''Acme'' ''Dev'' ''email'' '''' '''' '''' ''''])
     = Some ([], 1)"
  by code_simp


subsection \<open>Adding a record\<close>

lemma length_isoformat: "length (isoformat d) = 10"
  by (simp add: isoformat_def zfill4_def zfill2_def)

lemma isoformat_not_blank: "isoformat d \<noteq> ''''"
  using length_isoformat [of d] by auto

lemma length_to_csv: "length (to_csv df) = length df"
  by (simp add: to_csv_def)

text \<open>The file that \<^verbatim>\<open>add_application\<close> writes: the rows it read, written back, and the
  new row after them.\<close>

lemma add_application_file:
  "snd (add_application strptime today inp f) =
     to_csv (read_csv f) @
     [Row (isoformat (if strip (Date inp) = [] then today
                       else case strptime (strip (Date inp)) of Some d \<Rightarrow> d | None \<Rightarrow> today))
          (strip (Company inp)) (strip (Role inp)) (strip (Application_Method inp))
          (strip (Contact inp)) (strip (Status inp))
          (if strip (Follow_up_Date inp) = [] then []
           else case strptime (strip (Follow_up_Date inp)) of
                  Some d \<Rightarrow> isoformat d | None \<Rightarrow> [])
          (strip (Notes inp))]"
  by (simp add: add_application_def Let_def to_csv_def split: option.split)

lemma add_application_said:
  "last (fst (add_application strptime today inp f)) =
     ApplicationAdded (strip (Company inp)) (strip (Role inp))"
  by (simp add: add_application_def Let_def split: option.split)

text \<open>
  Claim C5. For every raw input, every parser and every file, adding ends with the
  notice that the application was added and writes one more row; the Date of that row
  is the date the parser reads from the stripped input, written as \<^verbatim>\<open>YYYY-MM-DD\<close>,
  and it is today's date when the stripped input is blank or the parser rejects it.
\<close>

theorem add_date_normalised:
  "last (fst (add_application strptime today inp f)) =
      ApplicationAdded (strip (Company inp)) (strip (Role inp))
   \<and> length (snd (add_application strptime today inp f)) = Suc (length f)
   \<and> (strip (Date inp) = '''' \<longrightarrow>
        Date (last (snd (add_application strptime today inp f))) = isoformat today)
   \<and> (\<forall>d. strip (Date inp) \<noteq> '''' \<and> strptime (strip (Date inp)) = Some d \<longrightarrow>
        Date (last (snd (add_application strptime today inp f))) = isoformat d)
   \<and> (strip (Date inp) \<noteq> '''' \<and> strptime (strip (Date inp)) = None \<longrightarrow>
        Date (last (snd (add_application strptime today inp f))) = isoformat today)"
  by (simp add: add_application_file add_application_said length_to_csv length_read_csv)

text \<open>A month 13 is rejected, and the row gets the date of the day.\<close>

theorem add_date_normalised_witness:
  "strip '' 2024-13-45 '' \<noteq> ''''
   \<and> iso_date (strip '' 2024-13-45 '') = None
   \<and> Date (last (snd (add_application iso_date (YMD 2024 1 1)
        (Row '' 2024-13-45 '' '' Acme '' ''Dev'' ''email'' '''' ''Applied'' ''next week'' '''')
        []))) = ''2024-01-01''"
proof -
  have s: "strip '' 2024-13-45 '' \<noteq> ''''"
    by code_simp
  have p: "iso_date (strip '' 2024-13-45 '') = None"
    by code_simp
  have t: "isoformat (YMD 2024 1 1) = ''2024-01-01''"
    by code_simp
  have "Date (last (snd (add_application iso_date (YMD 2024 1 1)
        (Row '' 2024-13-45 '' '' Acme '' ''Dev'' ''email'' '''' ''Applied'' ''next week'' '''')
        []))) = isoformat (YMD 2024 1 1)"
    using add_date_normalised [of iso_date "YMD 2024 1 1"
        "Row '' 2024-13-45 '' '' Acme '' ''Dev'' ''email'' '''' ''Applied'' ''next week'' ''''" "[]"]
      s p
    by simp
  with s p t show ?thesis
    by simp
qed

text \<open>
  Claim C6. For every raw input, every parser and every file, adding ends with the
  notice that the application was added and writes one more row; when the stripped
  Follow-up Date input is not blank and the parser rejects it, the Follow-up Date of
  that row is the empty field, which is not today's date and is read back as missing.
  A follow-up the parser reads is written as \<^verbatim>\<open>YYYY-MM-DD\<close>, a blank one stays blank.
\<close>

theorem add_follow_up_normalised:
  "last (fst (add_application strptime today inp f)) =
      ApplicationAdded (strip (Company inp)) (strip (Role inp))
   \<and> length (snd (add_application strptime today inp f)) = Suc (length f)
   \<and> (strip (Follow_up_Date inp) \<noteq> '''' \<and> strptime (strip (Follow_up_Date inp)) = None \<longrightarrow>
        Follow_up_Date (last (snd (add_application strptime today inp f))) = ''''
        \<and> Follow_up_Date (last (snd (add_application strptime today inp f))) \<noteq> isoformat today
        \<and> Follow_up_Date (last (read_csv (snd (add_application strptime today inp f)))) = NaN)
   \<and> (\<forall>d. strip (Follow_up_Date inp) \<noteq> '''' \<and> strptime (strip (Follow_up_Date inp)) = Some d \<longrightarrow>
        Follow_up_Date (last (snd (add_application strptime today inp f))) = isoformat d)
   \<and> (strip (Follow_up_Date inp) = '''' \<longrightarrow>
        Follow_up_Date (last (snd (add_application strptime today inp f))) = '''')"
  using isoformat_not_blank [of today]
  by (simp add: add_application_file add_application_said length_to_csv length_read_csv
                read_csv_def read_cell_def empty_is_na)

text \<open>\<^verbatim>\<open>next week\<close> is no date: the follow-up of the new row is left empty.\<close>

theorem add_follow_up_normalised_witness:
  "strip ''next week'' \<noteq> ''''
   \<and> iso_date (strip ''next week'') = None
   \<and> Follow_up_Date (last (snd (add_application iso_date (YMD 2024 1 1)
        (Row ''2023-12-24'' ''Acme'' ''Dev'' ''email'' '''' ''Applied'' ''next week'' '''')
        [Row ''2023-12-01'' ''Bolt'' ''Ops'' ''portal'' ''Kim'' ''Applied'' '''' '''']))) = ''''"
proof -
  have s: "strip ''next week'' \<noteq> ''''"
    by code_simp
  have p: "iso_date (strip ''next week'') = None"
    by code_simp
  have "Follow_up_Date (last (snd (add_application iso_date (YMD 2024 1 1)
        (Row ''2023-12-24'' ''Acme'' ''Dev'' ''email'' '''' ''Applied'' ''next week'' '''')
        [Row ''2023-12-01'' ''Bolt'' ''Ops'' ''portal'' ''Kim'' ''Applied'' '''' '''']))) = ''''"
    using add_follow_up_normalised [of iso_date "YMD 2024 1 1"
        "Row ''2023-12-24'' ''Acme'' ''Dev'' ''email'' '''' ''Applied'' ''next week'' ''''"
        "[Row ''2023-12-01'' ''Bolt'' ''Ops'' ''portal'' ''Kim'' ''Applied'' '''' '''']"]
      s p
    by simp
  with s p show ?thesis
    by simp
qed


subsection \<open>Writing and reading back\<close>

lemma write_read: "write_cell (read_cell s) = (if s \<in> set na_values then '''' else s)"
  by (simp add: read_cell_def)

lemma to_csv_read_csv:
  "to_csv (read_csv t) = map (map_row (\<lambda>s. if s \<in> set na_values then '''' else s)) t"
  by (simp add: to_csv_def read_csv_def row.map_comp comp_def write_read)

lemma add_application_appends:
  "\<exists>r. snd (add_application strptime today inp f) = to_csv (read_csv f) @ [r]"
  by (simp add: add_application_file)

lemma read_csv_snoc: "read_csv (t @ [r]) = read_csv t @ [map_row read_cell r]"
  by (simp add: read_csv_def)

text \<open>
  Claim C9, for the columns that keep their text and the texts that are read as values.
  For every frame whose written columns keep their text, writing it and reading it back
  gives as many records in the same order, and writing those again gives the first file
  with every field that spells a marker of a missing value made blank; so when every
  field of the frame is blank or is written as a text that is no such marker, the records
  read back have the same field texts, blank text fields and blank follow-up dates
  staying blank. For the file that \<^verbatim>\<open>add_application\<close> writes, when the columns of the old
  and of the new file keep their text: the listing afterwards is the old listing followed
  by the new record as it was written, with the markers of a missing value read as
  missing.
\<close>

theorem persist_reload:
  "(list_all kept_as_text (columns (to_csv df)) \<longrightarrow>
      length (read_csv (to_csv df)) = length df
      \<and> to_csv (read_csv (to_csv df)) =
          map (map_row (\<lambda>s. if s \<in> set na_values then '''' else s)) (to_csv df)
      \<and> ((\<forall>r \<in> set df. \<forall>c \<in> set_row r. write_cell c \<in> set na_values \<longrightarrow> write_cell c = '''') \<longrightarrow>
            to_csv (read_csv (to_csv df)) = to_csv df))
   \<and> (list_all kept_as_text (columns f)
        \<and> list_all kept_as_text (columns (snd (add_application strptime today inp f))) \<longrightarrow>
      listed (view_applications (snd (add_application strptime today inp f))) =
        listed (view_applications f)
          @ [map_row read_cell (last (snd (add_application strptime today inp f)))]
      \<and> to_csv (listed (view_applications (snd (add_application strptime today inp f)))) =
          map (map_row (\<lambda>s. if s \<in> set na_values then '''' else s))
              (snd (add_application strptime today inp f)))"
proof (intro conjI impI)
  show "length (read_csv (to_csv df)) = length df"
    by (simp add: length_read_csv length_to_csv)
  show "to_csv (read_csv (to_csv df)) =
       map (map_row (\<lambda>s. if s \<in> set na_values then '''' else s)) (to_csv df)"
    by (rule to_csv_read_csv)
next
  assume clean: "\<forall>r \<in> set df. \<forall>c \<in> set_row r. write_cell c \<in> set na_values \<longrightarrow> write_cell c = ''''"
  have "to_csv (read_csv (to_csv df)) = map (map_row (write_cell \<circ> read_cell \<circ> write_cell)) df"
    by (simp add: to_csv_def read_csv_def row.map_comp comp_def)
  also have "\<dots> = map (map_row write_cell) df"
  proof (rule map_cong [OF refl], rule row.map_cong [OF refl])
    fix r c assume "r \<in> set df" and "c \<in> set_row r"
    with clean have "write_cell c \<in> set na_values \<longrightarrow> write_cell c = ''''"
      by blast
    then show "(write_cell \<circ> read_cell \<circ> write_cell) c = write_cell c"
      by (auto simp: write_read)
  qed
  finally show "to_csv (read_csv (to_csv df)) = to_csv df"
    by (simp add: to_csv_def)
next
  obtain r where w: "snd (add_application strptime today inp f) = to_csv (read_csv f) @ [r]"
    using add_application_appends by blast
  have "read_csv (snd (add_application strptime today inp f)) =
      read_csv f @ [map_row read_cell r]"
    by (simp only: w read_csv_snoc read_csv_to_csv_read_csv)
  moreover have "last (snd (add_application strptime today inp f)) = r"
    by (simp only: w last_snoc)
  ultimately show "listed (view_applications (snd (add_application strptime today inp f))) =
        listed (view_applications f)
          @ [map_row read_cell (last (snd (add_application strptime today inp f)))]"
    by (simp only: listed_view_applications)
next
  show "to_csv (listed (view_applications (snd (add_application strptime today inp f)))) =
          map (map_row (\<lambda>s. if s \<in> set na_values then '''' else s))
              (snd (add_application strptime today inp f))"
    by (simp only: listed_view_applications to_csv_read_csv)
qed

text \<open>A record with an empty contact and an empty follow-up added to a file of one
  record: the listing afterwards has both, and writing it again gives the same file.\<close>

theorem persist_reload_witness:
  "list_all kept_as_text (columns
      [Row ''2023-12-01'' ''Bolt'' ''Ops'' ''portal'' ''Kim'' ''Applied'' '''' ''''])
   \<and> list_all kept_as_text (columns (snd (add_application iso_date (YMD 2024 2 3)
        (Row ''2024-02-03'' '' Acme '' ''Dev'' ''email'' '''' ''Applied'' '''' ''call, then mail'')
        [Row ''2023-12-01'' ''Bolt'' ''Ops'' ''portal'' ''Kim'' ''Applied'' '''' ''''])))
   \<and> listed (view_applications (snd (add_application iso_date (YMD 2024 2 3)
        (Row ''2024-02-03'' '' Acme '' ''Dev'' ''email'' '''' ''Applied'' '''' ''call, then mail'')
        [Row ''2023-12-01'' ''Bolt'' ''Ops'' ''portal'' ''Kim'' ''Applied'' '''' ''''])))
     = [Row (Str ''2023-12-01'') (Str ''Bolt'') (Str ''Ops'') (Str ''portal'') (Str ''Kim'')
            (Str ''Applied'') NaN NaN,
        Row (Str ''2024-02-03'') (Str ''Acme'') (Str ''Dev'') (Str ''email'') NaN
            (Str ''Applied'') NaN (Str ''call, then mail'')]
   \<and> to_csv (listed (view_applications (snd (add_application iso_date (YMD 2024 2 3)
        (Row ''2024-02-03'' '' Acme '' ''Dev'' ''email'' '''' ''Applied'' '''' ''call, then mail'')
        [Row ''2023-12-01'' ''Bolt'' ''Ops'' ''portal'' ''Kim'' ''Applied'' '''' '''']))))
     = [Row ''2023-12-01'' ''Bolt'' ''Ops'' ''portal'' ''Kim'' ''Applied'' '''' '''',
        Row ''2024-02-03'' ''Acme'' ''Dev'' ''email'' '''' ''Applied'' '''' ''call, then mail'']"
proof -
  let ?f = "[Row ''2023-12-01'' ''Bolt'' ''Ops'' ''portal'' ''Kim'' ''Applied'' '''' '''']"
  let ?inp = "Row ''2024-02-03'' '' Acme '' ''Dev'' ''email'' '''' ''Applied'' '''' ''call, then mail''"
  let ?w = "[Row ''2023-12-01'' ''Bolt'' ''Ops'' ''portal'' ''Kim'' ''Applied'' '''' '''',
        Row ''2024-02-03'' ''Acme'' ''Dev'' ''email'' '''' ''Applied'' '''' ''call, then mail'']"
  have written: "snd (add_application iso_date (YMD 2024 2 3) ?inp ?f) = ?w"
    by code_simp
  have old: "list_all kept_as_text (columns ?f)"
    by code_simp
  have new: "list_all kept_as_text (columns ?w)"
    by code_simp
  have new': "list_all kept_as_text
      (columns (snd (add_application iso_date (YMD 2024 2 3) ?inp ?f)))"
    by (simp only: written new)
  have listing: "listed (view_applications ?f) @ [map_row read_cell (last ?w)] =
     [Row (Str ''2023-12-01'') (Str ''Bolt'') (Str ''Ops'') (Str ''portal'') (Str ''Kim'')
            (Str ''Applied'') NaN NaN,
      Row (Str ''2024-02-03'') (Str ''Acme'') (Str ''Dev'') (Str ''email'') NaN
            (Str ''Applied'') NaN (Str ''call, then mail'')]"
    by (simp add: view_applications_def read_csv_def read_cell_def na_values_def)
  have blanked: "map (map_row (\<lambda>s. if s \<in> set na_values then '''' else s)) ?w = ?w"
    by (simp add: na_values_def)
  have "listed (view_applications (snd (add_application iso_date (YMD 2024 2 3) ?inp ?f))) =
        listed (view_applications ?f)
          @ [map_row read_cell (last (snd (add_application iso_date (YMD 2024 2 3) ?inp ?f)))]
      \<and> to_csv (listed (view_applications (snd (add_application iso_date (YMD 2024 2 3) ?inp ?f)))) =
          map (map_row (\<lambda>s. if s \<in> set na_values then '''' else s))
              (snd (add_application iso_date (YMD 2024 2 3) ?inp ?f))"
    using persist_reload [of "[]" ?f iso_date "YMD 2024 2 3" ?inp] old new'
    by blast
  then have "listed (view_applications ?w) =
      listed (view_applications ?f) @ [map_row read_cell (last ?w)]
      \<and> to_csv (listed (view_applications ?w)) =
          map (map_row (\<lambda>s. if s \<in> set na_values then '''' else s)) ?w"
    unfolding written .
  then have a: "listed (view_applications ?w) =
      listed (view_applications ?f) @ [map_row read_cell (last ?w)]"
    and b: "to_csv (listed (view_applications ?w)) =
          map (map_row (\<lambda>s. if s \<in> set na_values then '''' else s)) ?w"
    by blast+
  from a listing have a': "listed (view_applications ?w) =
     [Row (Str ''2023-12-01'') (Str ''Bolt'') (Str ''Ops'') (Str ''portal'') (Str ''Kim'')
            (Str ''Applied'') NaN NaN,
      Row (Str ''2024-02-03'') (Str ''Acme'') (Str ''Dev'') (Str ''email'') NaN
            (Str ''Applied'') NaN (Str ''call, then mail'')]"
    by (rule trans)
  from b blanked have b': "to_csv (listed (view_applications ?w)) = ?w"
    by (rule trans)
  from old new a' b' show ?thesis
    by (simp only: written simp_thms)
qed


text \<open>
  The claim as first put (every supported field value comes back) fails on a record
  whose contact was entered as \<^verbatim>\<open>N/A\<close>: the file written by \<^verbatim>\<open>add_application\<close> holds
  that text, the frame read back holds a missing value in its place, and the next
  writing of the frame holds an empty field.
\<close>

theorem persist_reload_counterexample:
  "Contact (last (snd (add_application iso_date (YMD 2024 2 3)
      (Row ''2023-12-24'' ''Acme'' ''Dev'' ''email'' ''N/A'' ''Applied'' '''' '''') []))) = ''N/A''
   \<and> Contact (last (read_csv (snd (add_application iso_date (YMD 2024 2 3)
      (Row ''2023-12-24'' ''Acme'' ''Dev'' ''email'' ''N/A'' ''Applied'' '''' '''') [])))) = NaN
   \<and> Contact (last (to_csv (read_csv (snd (add_application iso_date (YMD 2024 2 3)
      (Row ''2023-12-24'' ''Acme'' ''Dev'' ''email'' ''N/A'' ''Applied'' '''' '''') []))))) = ''''
   \<and> to_csv (read_csv (snd (add_application iso_date (YMD 2024 2 3)
      (Row ''2023-12-24'' ''Acme'' ''Dev'' ''email'' ''N/A'' ''Applied'' '''' '''') [])))
     \<noteq> snd (add_application iso_date (YMD 2024 2 3)
      (Row ''2023-12-24'' ''Acme'' ''Dev'' ''email'' ''N/A'' ''Applied'' '''' '''') [])"
proof -
  have written: "snd (add_application iso_date (YMD 2024 2 3)
      (Row ''2023-12-24'' ''Acme'' ''Dev'' ''email'' ''N/A'' ''Applied'' '''' '''') []) =
      [Row ''2023-12-24'' ''Acme'' ''Dev'' ''email'' ''N/A'' ''Applied'' '''' '''']"
    by code_simp
  have na: "''N/A'' \<in> set na_values"
    by (simp add: na_values_def)
  show ?thesis
    unfolding written
    by (simp add: read_csv_def to_csv_def read_cell_def na)
qed

end
